theory Spec2Isabelle
  imports Complex_Main "HOL-Library.Multiset"
begin

section \<open>The scoring engine of server.js\<close>

text \<open>
  The development embeds \<^verbatim>\<open>calculateScores\<close>, \<^verbatim>\<open>formatMetricValue\<close> and
  \<^verbatim>\<open>detectPatterns\<close> of \<^verbatim>\<open>src/server.js\<close> (lines 54 to 238).

  Numbers. A JavaScript number is modelled as a real number or \<open>NaN\<close>. The metric values
  of the configuration are finite numbers, and the four category scores are sums of
  quotients of these by non-zero literals, so they are computed in the reals. The weights
  and the overall score can be \<open>NaN\<close> (the product \<^verbatim>\<open>undefined * 1.15\<close>), so they live
  in the type \<open>number\<close>, whose operations propagate \<open>NaN\<close> as IEEE arithmetic does.
  Rounding of binary floating point and overflow to infinity are not modelled.
\<close>

subsection \<open>Numbers, strings and values of the language\<close>

datatype number = Fin real | NaN

instantiation number :: "{plus, times, inverse}"
begin

fun plus_number :: "number \<Rightarrow> number \<Rightarrow> number" where
  "plus_number (Fin x) (Fin y) = Fin (x + y)"
| "plus_number _ _ = NaN"

fun times_number :: "number \<Rightarrow> number \<Rightarrow> number" where
  "times_number (Fin x) (Fin y) = Fin (x * y)"
| "times_number _ _ = NaN"

text \<open>Division is only ever applied to a non-zero or \<open>NaN\<close> divisor in this program.\<close>

fun divide_number :: "number \<Rightarrow> number \<Rightarrow> number" where
  "divide_number (Fin x) (Fin y) = Fin (x / y)"
| "divide_number _ _ = NaN"

fun inverse_number :: "number \<Rightarrow> number" where
  "inverse_number (Fin x) = Fin (inverse x)"
| "inverse_number NaN = NaN"

instance ..

end

text \<open>\<^verbatim>\<open>Math.min\<close> and \<^verbatim>\<open>Math.max\<close> return \<open>NaN\<close> when an argument is \<open>NaN\<close>.\<close>

fun Math_min :: "number \<Rightarrow> number \<Rightarrow> number" where
  "Math_min (Fin x) (Fin y) = Fin (min x y)"
| "Math_min _ _ = NaN"

fun Math_max :: "number \<Rightarrow> number \<Rightarrow> number" where
  "Math_max (Fin x) (Fin y) = Fin (max x y)"
| "Math_max _ _ = NaN"

text \<open>\<^verbatim>\<open>Math.round\<close> rounds to the nearest integer, a half towards plus infinity.\<close>

definition Math_round :: "real \<Rightarrow> int" where
  "Math_round x = \<lfloor>x + 1 / 2\<rfloor>"

text \<open>A number lies in the closed unit interval; \<open>NaN\<close> does not.\<close>

fun in_unit_interval :: "number \<Rightarrow> bool" where
  "in_unit_interval (Fin x) = (0 \<le> x \<and> x \<le> 1)"
| "in_unit_interval NaN = False"

text \<open>
  Decimal rendering of an integer, as \<^verbatim>\<open>toString\<close> and template literals give it. A
  number is an integer exactly, and is printed with all its digits, when its magnitude is
  below \<open>2^53\<close>; the statements that depend on the printed form of a rating say so.
\<close>

definition digit_char :: "nat \<Rightarrow> char" where
  "digit_char d = ''0123456789'' ! d"

fun digits10 :: "nat \<Rightarrow> string" where
  "digits10 n = (if n < 10 then [digit_char n] else digits10 (n div 10) @ [digit_char (n mod 10)])"

declare digits10.simps [simp del]

definition toString :: "int \<Rightarrow> string" where
  "toString i = (if i < 0 then CHR ''-'' # digits10 (nat (- i)) else digits10 (nat i))"

text \<open>
  \<^verbatim>\<open>parseInt(v)\<close> with no radix, on the string form of \<open>v\<close>: it skips leading white
  space, reads a sign, takes \<^verbatim>\<open>0x\<close> or \<^verbatim>\<open>0X\<close> as the mark of radix 16, and reads
  the longest run of digits of the radix that follows; what comes after is ignored. With
  no digit the result is \<open>NaN\<close>, here \<open>None\<close>. White space is the ASCII white space
  and line terminators; the spaces outside ASCII are left out. The integer read is the
  number the code gets when its magnitude is below \<open>2^53\<close>.
\<close>

definition white_space :: "char \<Rightarrow> bool" where
  "white_space c = (c \<in> set [CHR 0x09, CHR 0x0A, CHR 0x0B, CHR 0x0C, CHR 0x0D, CHR 0x20])"

definition digit_value :: "char \<Rightarrow> nat option" where
  "digit_value c =
     map_of [(CHR ''0'', 0), (CHR ''1'', 1), (CHR ''2'', 2), (CHR ''3'', 3), (CHR ''4'', 4),
             (CHR ''5'', 5), (CHR ''6'', 6), (CHR ''7'', 7), (CHR ''8'', 8), (CHR ''9'', 9),
             (CHR ''a'', 10), (CHR ''b'', 11), (CHR ''c'', 12), (CHR ''d'', 13), (CHR ''e'', 14),
             (CHR ''f'', 15), (CHR ''A'', 10), (CHR ''B'', 11), (CHR ''C'', 12), (CHR ''D'', 13),
             (CHR ''E'', 14), (CHR ''F'', 15)] c"

definition radix_digit :: "nat \<Rightarrow> char \<Rightarrow> bool" where
  "radix_digit R c = (case digit_value c of None \<Rightarrow> False | Some d \<Rightarrow> d < R)"

definition digits_value :: "nat \<Rightarrow> string \<Rightarrow> nat" where
  "digits_value R Z =
     foldl (\<lambda>a c. a * R + (case digit_value c of None \<Rightarrow> 0 | Some d \<Rightarrow> d)) 0 Z"

definition parseInt :: "string \<Rightarrow> int option" where
  "parseInt inputString =
     (let S = dropWhile white_space inputString;
          sign = (if S \<noteq> [] \<and> hd S = CHR ''-'' then - 1 else 1);
          S = (if S \<noteq> [] \<and> (hd S = CHR ''+'' \<or> hd S = CHR ''-'') then tl S else S);
          hex = (2 \<le> length S \<and> (take 2 S = ''0x'' \<or> take 2 S = ''0X''));
          R = (if hex then 16 else 10);
          S = (if hex then drop 2 S else S);
          Z = takeWhile (radix_digit R) S
      in if Z = [] then None else Some (sign * int (digits_value R Z)))"

text \<open>\<^verbatim>\<open>s.includes(t)\<close>: \<open>t\<close> occurs in \<open>s\<close> as a contiguous substring.\<close>

fun starts_with :: "string \<Rightarrow> string \<Rightarrow> bool" where
  "starts_with s [] = True"
| "starts_with [] (c # t) = False"
| "starts_with (d # s) (c # t) = (d = c \<and> starts_with s t)"

fun str_includes :: "string \<Rightarrow> string \<Rightarrow> bool" where
  "str_includes [] t = (t = [])"
| "str_includes (d # s) t = (starts_with (d # s) t \<or> str_includes s t)"

subsection \<open>The request and the configuration\<close>

text \<open>
  The answers of a request. \<^verbatim>\<open>parseInt\<close> turns its argument into a string before it
  parses, so a rating field is given by its string form: a string by itself, the number 4
  by \<^verbatim>\<open>4\<close>, the number 2.5 by \<^verbatim>\<open>2.5\<close>, the number \<open>10^21\<close> by \<^verbatim>\<open>1e+21\<close>, as
  the language prints them. \<open>None\<close> is an absent field. The top challenge is a string,
  \<open>None\<close> when the field is absent.
\<close>

record answers =
  question_1_pipeline_health :: "string option"
  question_2_sales_conversion :: "string option"
  question_3_customer_success :: "string option"
  question_4_economics_and_efficiency :: "string option"
  question_5_top_challenge :: "string option"

text \<open>
  \<^verbatim>\<open>parseInt(x) || 3\<close>: \<open>NaN\<close> and \<open>0\<close> are falsy and give the default. An absent field
  is \<^verbatim>\<open>undefined\<close>, which has no digit to read.
\<close>

definition rating :: "string option \<Rightarrow> int" where
  "rating x =
     (case x of
        None \<Rightarrow> 3
      | Some s \<Rightarrow> (case parseInt s of None \<Rightarrow> 3 | Some n \<Rightarrow> if n = 0 then 3 else n))"

text \<open>\<^verbatim>\<open>answers.question_5_top_challenge || 'pipeline'\<close>: the empty string is falsy.\<close>

definition top_challenge :: "string option \<Rightarrow> string" where
  "top_challenge x = (case x of None \<Rightarrow> ''pipeline'' | Some s \<Rightarrow> if s = [] then ''pipeline'' else s)"

text \<open>
  The metric bundles of \<^verbatim>\<open>wizard_questions.json\<close>, one record per category. The file
  is read once at start-up; its contents are a parameter of the model. Every field is a
  finite number.
\<close>

record pipeline_metrics =
  lead_velocity_rate :: real
  mql_to_sql_conversion :: real
  marketing_contribution_pipeline :: real
  pipeline_coverage_ratio :: real
  inbound_lead_volume_growth :: real
  lead_response_time :: real

record conversion_metrics =
  win_rate :: real
  sales_cycle_length :: real
  sql_acceptance_rate :: real
  demo_to_proposal_rate :: real
  proposal_to_won_rate :: real
  pipeline_conversion_rate :: real

record expansion_metrics =
  nrr :: real
  grr :: real
  churn_rate :: real
  expansion_revenue_growth :: real
  nps :: real
  time_to_first_value :: real

record economics_metrics =
  cac_payback_period :: real
  ltv_cac :: real
  burn_multiple :: real
  sales_rep_ramp_time :: real
  quota_attainment :: real
  magic_number :: real
  rule_of_40 :: real

text \<open>
  \<^verbatim>\<open>wizardConfig.questions\<close>: field \<open>qN_maps_to_metrics\<close> is the object
  \<^verbatim>\<open>questions.question_N_....maps_to_metrics\<close>, keyed by the rating as a string. A key
  without an entry reads as \<^verbatim>\<open>undefined\<close>, here \<open>None\<close>.
\<close>

record questions =
  q1_maps_to_metrics :: "string \<Rightarrow> pipeline_metrics option"
  q2_maps_to_metrics :: "string \<Rightarrow> conversion_metrics option"
  q3_maps_to_metrics :: "string \<Rightarrow> expansion_metrics option"
  q4_maps_to_metrics :: "string \<Rightarrow> economics_metrics option"

subsection \<open>Category scores (lines 70 to 99 and 125 to 134)\<close>

definition pipelineScore :: "pipeline_metrics \<Rightarrow> real" where
  "pipelineScore pipelineMetrics =
     (lead_velocity_rate pipelineMetrics / 0.12) * 0.25 +
     (mql_to_sql_conversion pipelineMetrics / 0.28) * 0.25 +
     (marketing_contribution_pipeline pipelineMetrics / 0.38) * 0.20 +
     (pipeline_coverage_ratio pipelineMetrics / 3.8) * 0.15 +
     (inbound_lead_volume_growth pipelineMetrics / 0.25) * 0.10 +
     (1 - (lead_response_time pipelineMetrics / 24)) * 0.05"

definition conversionScore :: "conversion_metrics \<Rightarrow> real" where
  "conversionScore conversionMetrics =
     (win_rate conversionMetrics / 0.32) * 0.30 +
     (1 - (sales_cycle_length conversionMetrics / 180)) * 0.20 +
     (sql_acceptance_rate conversionMetrics / 0.90) * 0.15 +
     (demo_to_proposal_rate conversionMetrics / 0.72) * 0.15 +
     (proposal_to_won_rate conversionMetrics / 0.68) * 0.10 +
     (pipeline_conversion_rate conversionMetrics / 0.42) * 0.10"

definition expansionScore :: "expansion_metrics \<Rightarrow> real" where
  "expansionScore expansionMetrics =
     (nrr expansionMetrics / 1.20) * 0.30 +
     (grr expansionMetrics / 0.98) * 0.20 +
     (1 - churn_rate expansionMetrics) * 0.20 +
     (expansion_revenue_growth expansionMetrics / 0.28) * 0.15 +
     (nps expansionMetrics / 58) * 0.10 +
     (1 - (time_to_first_value expansionMetrics / 60)) * 0.05"

definition economicsScore :: "economics_metrics \<Rightarrow> real" where
  "economicsScore economicsMetrics =
     (1 - (cac_payback_period economicsMetrics / 26)) * 0.20 +
     (ltv_cac economicsMetrics / 5.8) * 0.20 +
     (1 - (burn_multiple economicsMetrics / 4.0)) * 0.15 +
     (1 - (sales_rep_ramp_time economicsMetrics / 6.5)) * 0.10 +
     (quota_attainment economicsMetrics / 0.88) * 0.15 +
     (magic_number economicsMetrics / 1.25) * 0.10 +
     (rule_of_40 economicsMetrics / 62) * 0.10"

subsection \<open>The weights (lines 103 to 123)\<close>

text \<open>
  The object \<^verbatim>\<open>weights\<close> is a list of its own properties in insertion order, since the
  code can add a property to it and then folds over \<^verbatim>\<open>Object.values\<close>.
\<close>

type_synonym weights = "(string \<times> number) list"

definition base_weights :: weights where
  "base_weights =
     [(''pipeline'', Fin 0.30), (''conversion'', Fin 0.30),
      (''expansion'', Fin 0.25), (''economics'', Fin 0.15)]"

text \<open>Reading a property into arithmetic: a missing one is \<^verbatim>\<open>undefined\<close>, that is \<open>NaN\<close>.\<close>

definition get_number :: "weights \<Rightarrow> string \<Rightarrow> number" where
  "get_number ws k = (case map_of ws k of Some v \<Rightarrow> v | None \<Rightarrow> NaN)"

text \<open>Assigning a property: an own property keeps its place, a new one goes last.\<close>

fun set_property :: "weights \<Rightarrow> string \<Rightarrow> number \<Rightarrow> weights" where
  "set_property [] k v = [(k, v)]"
| "set_property ((k', v') # ws) k v =
     (if k' = k then (k, v) # ws else (k', v') # set_property ws k v)"

text \<open>
  What \<^verbatim>\<open>challengeWeightMap[topChallenge]\<close> evaluates to. The map is an object literal, so
  a key that is not its own property is looked up in \<^verbatim>\<open>Object.prototype\<close>: there
  \<^verbatim>\<open>constructor\<close>, \<^verbatim>\<open>toString\<close> and the like are functions and \<^verbatim>\<open>__proto__\<close> is an
  object. \<open>Builtin k\<close> is the member of \<^verbatim>\<open>Object.prototype\<close> named \<open>k\<close>.
\<close>

datatype jsvalue = Undefined | Str string | Builtin string

definition object_prototype_names :: "string list" where
  "object_prototype_names =
     [''constructor'', ''__defineGetter__'', ''__defineSetter__'', ''hasOwnProperty'',
      ''__lookupGetter__'', ''__lookupSetter__'', ''isPrototypeOf'',
      ''propertyIsEnumerable'', ''toString'', ''valueOf'', ''__proto__'',
      ''toLocaleString'']"

definition challengeWeightMap :: "string \<Rightarrow> jsvalue" where
  "challengeWeightMap k =
     (case map_of [(''pipeline'', ''pipeline''), (''conversion'', ''conversion''),
                   (''retention'', ''expansion'')] k of
        Some v \<Rightarrow> Str v
      | None \<Rightarrow> if k \<in> set object_prototype_names then Builtin k else Undefined)"

fun truthy :: "jsvalue \<Rightarrow> bool" where
  "truthy Undefined = False"
| "truthy (Str s) = (s \<noteq> [])"
| "truthy (Builtin k) = True"

text \<open>The property key a value denotes between brackets: its string form.\<close>

fun property_key :: "jsvalue \<Rightarrow> string" where
  "property_key Undefined = ''undefined''"
| "property_key (Str s) = s"
| "property_key (Builtin k) =
     (if k = ''__proto__'' then ''[object Object]''
      else ''function '' @ (if k = ''constructor'' then ''Object'' else k) @ ''() { [native code] }'')"

definition adjusted_weights :: "string \<Rightarrow> weights" where
  "adjusted_weights topChallenge =
     (if truthy (challengeWeightMap topChallenge) then
        (let focusArea = challengeWeightMap topChallenge;
             weights = set_property base_weights (property_key focusArea)
                         (get_number base_weights (property_key focusArea) * Fin 1.15);
             totalWeight = foldl (+) (Fin 0) (map snd weights)
         in map (\<lambda>(key, w). (key, w / totalWeight)) weights)
      else base_weights)"

definition overallSSI :: "real \<Rightarrow> real \<Rightarrow> real \<Rightarrow> real \<Rightarrow> weights \<Rightarrow> number" where
  "overallSSI pipeline conversion expansion economics weights =
     Fin pipeline * get_number weights ''pipeline'' +
     Fin conversion * get_number weights ''conversion'' +
     Fin expansion * get_number weights ''expansion'' +
     Fin economics * get_number weights ''economics''"

subsection \<open>Priority recommendations (lines 144 to 166, 181 to 190)\<close>

record metric =
  m_name :: string
  m_score :: real
  m_loop :: string
  m_value :: real

definition allMetrics ::
  "pipeline_metrics \<Rightarrow> conversion_metrics \<Rightarrow> expansion_metrics \<Rightarrow> economics_metrics \<Rightarrow> metric list" where
  "allMetrics pipelineMetrics conversionMetrics expansionMetrics economicsMetrics =
     [\<lparr>m_name = ''Lead Velocity Rate'', m_score = lead_velocity_rate pipelineMetrics / 0.12,
        m_loop = ''Pipeline'', m_value = lead_velocity_rate pipelineMetrics\<rparr>,
      \<lparr>m_name = ''MQL to SQL Conversion'', m_score = mql_to_sql_conversion pipelineMetrics / 0.28,
        m_loop = ''Pipeline'', m_value = mql_to_sql_conversion pipelineMetrics\<rparr>,
      \<lparr>m_name = ''Lead Response Time'', m_score = 1 - (lead_response_time pipelineMetrics / 24),
        m_loop = ''Pipeline'', m_value = lead_response_time pipelineMetrics\<rparr>,
      \<lparr>m_name = ''Win Rate'', m_score = win_rate conversionMetrics / 0.32,
        m_loop = ''Conversion'', m_value = win_rate conversionMetrics\<rparr>,
      \<lparr>m_name = ''Sales Cycle Length'', m_score = 1 - (sales_cycle_length conversionMetrics / 180),
        m_loop = ''Conversion'', m_value = sales_cycle_length conversionMetrics\<rparr>,
      \<lparr>m_name = ''Net Revenue Retention'', m_score = nrr expansionMetrics / 1.20,
        m_loop = ''Expansion'', m_value = nrr expansionMetrics\<rparr>,
      \<lparr>m_name = ''Churn Rate'', m_score = 1 - churn_rate expansionMetrics,
        m_loop = ''Expansion'', m_value = churn_rate expansionMetrics\<rparr>,
      \<lparr>m_name = ''CAC Payback Period'', m_score = 1 - (cac_payback_period economicsMetrics / 26),
        m_loop = ''Economics'', m_value = cac_payback_period economicsMetrics\<rparr>,
      \<lparr>m_name = ''LTV:CAC Ratio'', m_score = ltv_cac economicsMetrics / 5.8,
        m_loop = ''Economics'', m_value = ltv_cac economicsMetrics\<rparr>]"

text \<open>
  \<^verbatim>\<open>Array.prototype.sort\<close> with a comparator is a stable sort: an element goes before
  another when the comparator is negative, and elements that compare equal keep their
  order. Insertion from the right end gives that result.
\<close>

fun insert_by :: "('a \<Rightarrow> 'a \<Rightarrow> real) \<Rightarrow> 'a \<Rightarrow> 'a list \<Rightarrow> 'a list" where
  "insert_by cmp x [] = [x]"
| "insert_by cmp x (y # ys) = (if cmp x y \<le> 0 then x # y # ys else y # insert_by cmp x ys)"

definition array_sort :: "('a \<Rightarrow> 'a \<Rightarrow> real) \<Rightarrow> 'a list \<Rightarrow> 'a list" where
  "array_sort cmp xs = foldr (insert_by cmp) xs []"

text \<open>
  \<^verbatim>\<open>x.toFixed(d)\<close>: the decimal with \<open>d\<close> fraction digits nearest to \<open>x\<close>, the larger one
  on a tie, after the sign (for magnitudes below \<open>10^21\<close>).
\<close>

definition toFixed :: "real \<Rightarrow> nat \<Rightarrow> string" where
  "toFixed x d =
     (let n = nat \<lfloor>\<bar>x\<bar> * 10 ^ d + 1 / 2\<rfloor>;
          ds = digits10 n;
          padded = replicate (d + 1 - length ds) CHR ''0'' @ ds;
          k = length padded - d
      in (if x < 0 then ''-'' else []) @ take k padded @
         (if d = 0 then [] else CHR ''.'' # drop k padded))"

definition formatMetricValue :: "string \<Rightarrow> real \<Rightarrow> string" where
  "formatMetricValue metricName v =
     (if str_includes metricName ''Rate'' \<or> str_includes metricName ''Conversion'' \<or>
         str_includes metricName ''Retention''
      then toString (Math_round (v * 100)) @ ''%''
      else if str_includes metricName ''Time'' \<or> str_includes metricName ''Length'' \<or>
         str_includes metricName ''Period''
      then toString (Math_round v) @ '' days''
      else if str_includes metricName ''Ratio''
      then toFixed v 1 @ '':1''
      else toFixed v 2)"

record recommendation =
  name :: string
  score :: int
  loop :: string
  description :: string

text \<open>The callback of \<^verbatim>\<open>.map\<close> at lines 161 to 166.\<close>

definition recommend :: "metric \<Rightarrow> recommendation" where
  "recommend m =
     \<lparr>name = m_name m,
      score = Math_round (m_score m * 100),
      loop = m_loop m,
      description = ''Current value: '' @ formatMetricValue (m_name m) (m_value m)\<rparr>"

definition priorityRecommendations :: "metric list \<Rightarrow> recommendation list" where
  "priorityRecommendations ms =
     map recommend (take 5 (array_sort (\<lambda>a b. m_score a - m_score b) ms))"

subsection \<open>Pattern detection (lines 193 to 238)\<close>

record detected_pattern =
  pattern :: string
  pattern_description :: string
  priority :: string

definition detectPatterns :: "answers \<Rightarrow> real \<Rightarrow> real \<Rightarrow> real \<Rightarrow> detected_pattern list" where
  "detectPatterns ans pipeline conversion expansion =
     (let pipelineRating = rating (question_1_pipeline_health ans);
          conversionRating = rating (question_2_sales_conversion ans);
          expansionRating = rating (question_3_customer_success ans);
          economicsRating = rating (question_4_economics_and_efficiency ans)
      in (if pipelineRating \<ge> 4 \<and> conversionRating \<le> 2
          then [\<lparr>pattern = ''pipeline_conversion_gap'',
                  pattern_description = ''Strong pipeline but weak conversion - focus on sales enablement'',
                  priority = ''high''\<rparr>]
          else []) @
         (if conversionRating \<ge> 4 \<and> expansionRating \<le> 2
          then [\<lparr>pattern = ''leaky_bucket'',
                  pattern_description = ''Acquiring customers but losing them - prioritize customer success'',
                  priority = ''critical''\<rparr>]
          else []) @
         (if pipelineRating \<le> 2 \<and> conversionRating \<le> 2 \<and> expansionRating \<le> 2
          then [\<lparr>pattern = ''systematic_issues'',
                  pattern_description = ''Multiple weak areas suggest fundamental GTM challenges'',
                  priority = ''critical''\<rparr>]
          else []) @
         (if economicsRating \<le> 2 \<and> (pipelineRating \<ge> 3 \<or> conversionRating \<ge> 3)
          then [\<lparr>pattern = ''unit_economics_problem'',
                  pattern_description = ''Operations functional but economics unsustainable'',
                  priority = ''high''\<rparr>]
          else []))"

subsection \<open>calculateScores (lines 54 to 178)\<close>

record loop_scores_t =
  Pipeline :: number
  Conversion :: number
  Expansion :: number

record score_result =
  overall_ssi :: number
  loop_scores :: loop_scores_t
  priority_recommendations :: "recommendation list"
  detected_patterns :: "detected_pattern list"

text \<open>
  Reading a property of \<^verbatim>\<open>undefined\<close> throws a \<^verbatim>\<open>TypeError\<close>: that is what happens at
  the first use of a metric bundle whose lookup found no entry.
\<close>

datatype error = TypeError

definition calculateScores :: "questions \<Rightarrow> answers \<Rightarrow> error + score_result" where
  "calculateScores qs ans =
     (let pipelineRating = rating (question_1_pipeline_health ans);
          conversionRating = rating (question_2_sales_conversion ans);
          expansionRating = rating (question_3_customer_success ans);
          economicsRating = rating (question_4_economics_and_efficiency ans);
          topChallenge = top_challenge (question_5_top_challenge ans)
      in case q1_maps_to_metrics qs (toString pipelineRating) of
           None \<Rightarrow> Inl TypeError
         | Some pipelineMetrics \<Rightarrow>
       (case q2_maps_to_metrics qs (toString conversionRating) of
           None \<Rightarrow> Inl TypeError
         | Some conversionMetrics \<Rightarrow>
       (case q3_maps_to_metrics qs (toString expansionRating) of
           None \<Rightarrow> Inl TypeError
         | Some expansionMetrics \<Rightarrow>
       (case q4_maps_to_metrics qs (toString economicsRating) of
           None \<Rightarrow> Inl TypeError
         | Some economicsMetrics \<Rightarrow>
           Inr \<lparr>overall_ssi =
                  Math_max (Fin 0) (Math_min (Fin 1)
                    (overallSSI (pipelineScore pipelineMetrics) (conversionScore conversionMetrics)
                       (expansionScore expansionMetrics) (economicsScore economicsMetrics)
                       (adjusted_weights topChallenge))),
                loop_scores =
                  \<lparr>Pipeline = Math_max (Fin 0) (Math_min (Fin 1) (Fin (pipelineScore pipelineMetrics))),
                   Conversion = Math_max (Fin 0) (Math_min (Fin 1) (Fin (conversionScore conversionMetrics))),
                   Expansion = Math_max (Fin 0) (Math_min (Fin 1) (Fin (expansionScore expansionMetrics)))\<rparr>,
                priority_recommendations =
                  priorityRecommendations
                    (allMetrics pipelineMetrics conversionMetrics expansionMetrics economicsMetrics),
                detected_patterns =
                  detectPatterns ans (pipelineScore pipelineMetrics)
                    (conversionScore conversionMetrics) (expansionScore expansionMetrics)\<rparr>))))"

subsection \<open>Well-formed requests and configurations\<close>

text \<open>A rating field that the code reads as one of 1, 2, 3, 4, 5.\<close>

definition valid_rating :: "string option \<Rightarrow> bool" where
  "valid_rating x =
     (case x of
        None \<Rightarrow> False
      | Some s \<Rightarrow> (case parseInt s of None \<Rightarrow> False | Some n \<Rightarrow> 1 \<le> n \<and> n \<le> 5))"

definition valid_ratings :: "answers \<Rightarrow> bool" where
  "valid_ratings ans =
     (valid_rating (question_1_pipeline_health ans) \<and>
      valid_rating (question_2_sales_conversion ans) \<and>
      valid_rating (question_3_customer_success ans) \<and>
      valid_rating (question_4_economics_and_efficiency ans))"

text \<open>A configuration with a bundle under each of the keys "1" to "5", in every category.\<close>

definition rating_keys :: "string list" where
  "rating_keys = [''1'', ''2'', ''3'', ''4'', ''5'']"

definition complete_bundles :: "questions \<Rightarrow> bool" where
  "complete_bundles qs =
     list_all (\<lambda>k. q1_maps_to_metrics qs k \<noteq> None \<and> q2_maps_to_metrics qs k \<noteq> None \<and>
                    q3_maps_to_metrics qs k \<noteq> None \<and> q4_maps_to_metrics qs k \<noteq> None)
       rating_keys"

subsection \<open>A sample configuration\<close>

text \<open>
  A configuration to run the engine on. A bundle at level \<open>f\<close> puts every metric at the
  share \<open>f\<close> of the constant the score divides it by, and a metric where lower is better
  at the share \<open>1 - f\<close>, never below 0. The ratings 1 to 4 are the levels 0.2 to 0.8;
  the rating 5 is the level 1.25, above every benchmark; and the lowest pipeline rating
  answers leads after 48 hours.
\<close>

definition sample_pipeline :: "real \<Rightarrow> pipeline_metrics" where
  "sample_pipeline f =
     \<lparr>lead_velocity_rate = 0.12 * f, mql_to_sql_conversion = 0.28 * f,
      marketing_contribution_pipeline = 0.38 * f, pipeline_coverage_ratio = 3.8 * f,
      inbound_lead_volume_growth = 0.25 * f, lead_response_time = 24 * max 0 (1 - f)\<rparr>"

definition sample_conversion :: "real \<Rightarrow> conversion_metrics" where
  "sample_conversion f =
     \<lparr>win_rate = 0.32 * f, sales_cycle_length = 180 * max 0 (1 - f),
      sql_acceptance_rate = 0.90 * f, demo_to_proposal_rate = 0.72 * f,
      proposal_to_won_rate = 0.68 * f, pipeline_conversion_rate = 0.42 * f\<rparr>"

definition sample_expansion :: "real \<Rightarrow> expansion_metrics" where
  "sample_expansion f =
     \<lparr>nrr = 1.20 * f, grr = 0.98 * f, churn_rate = max 0 (1 - f),
      expansion_revenue_growth = 0.28 * f, nps = 58 * f,
      time_to_first_value = 60 * max 0 (1 - f)\<rparr>"

definition sample_economics :: "real \<Rightarrow> economics_metrics" where
  "sample_economics f =
     \<lparr>cac_payback_period = 26 * max 0 (1 - f), ltv_cac = 5.8 * f,
      burn_multiple = 4.0 * max 0 (1 - f), sales_rep_ramp_time = 6.5 * max 0 (1 - f),
      quota_attainment = 0.88 * f, magic_number = 1.25 * f, rule_of_40 = 62 * f\<rparr>"

definition sample_questions :: questions where
  "sample_questions =
     \<lparr>q1_maps_to_metrics =
        map_of [(''1'', (sample_pipeline 0.2)\<lparr>lead_response_time := 48\<rparr>),
                (''2'', sample_pipeline 0.4), (''3'', sample_pipeline 0.6),
                (''4'', sample_pipeline 0.8), (''5'', sample_pipeline 1.25)],
      q2_maps_to_metrics =
        map_of [(''1'', sample_conversion 0.2), (''2'', sample_conversion 0.4),
                (''3'', sample_conversion 0.6), (''4'', sample_conversion 0.8),
                (''5'', sample_conversion 1.25)],
      q3_maps_to_metrics =
        map_of [(''1'', sample_expansion 0.2), (''2'', sample_expansion 0.4),
                (''3'', sample_expansion 0.6), (''4'', sample_expansion 0.8),
                (''5'', sample_expansion 1.25)],
      q4_maps_to_metrics =
        map_of [(''1'', sample_economics 0.2), (''2'', sample_economics 0.4),
                (''3'', sample_economics 0.6), (''4'', sample_economics 0.8),
                (''5'', sample_economics 1.25)]\<rparr>"

text \<open>The request whose ratings are the integers \<open>p\<close>, \<open>c\<close>, \<open>e\<close>, \<open>ec\<close>.\<close>

definition sample_answers :: "int \<Rightarrow> int \<Rightarrow> int \<Rightarrow> int \<Rightarrow> string option \<Rightarrow> answers" where
  "sample_answers p c e ec t =
     \<lparr>question_1_pipeline_health = Some (toString p),
      question_2_sales_conversion = Some (toString c),
      question_3_customer_success = Some (toString e),
      question_4_economics_and_efficiency = Some (toString ec),
      question_5_top_challenge = t\<rparr>"

section \<open>Properties\<close>

subsection \<open>Reading a rating\<close>

lemma digit_value_digit_char: "d < 10 \<Longrightarrow> digit_value (digit_char d) = Some d"
proof -
  assume "d < 10"
  then have "d = 0 \<or> d = 1 \<or> d = 2 \<or> d = 3 \<or> d = 4 \<or> d = 5 \<or> d = 6 \<or> d = 7 \<or> d = 8 \<or> d = 9"
    by arith
  then show ?thesis
    by (elim disjE) (simp_all add: digit_char_def digit_value_def)
qed

lemma digits10_chars: "c \<in> set (digits10 n) \<Longrightarrow> \<exists>d<10. c = digit_char d"
proof (induction n rule: digits10.induct)
  case (1 n)
  show ?case
  proof (cases "n < 10")
    case True
    with "1.prems" show ?thesis by (auto simp: digits10.simps[of n])
  next
    case False
    with "1.prems" have "c \<in> set (digits10 (n div 10)) \<or> c = digit_char (n mod 10)"
      by (auto simp: digits10.simps[of n])
    then show ?thesis
    proof
      assume "c \<in> set (digits10 (n div 10))"
      with "1.IH" False show ?thesis by blast
    next
      assume "c = digit_char (n mod 10)"
      moreover have "n mod 10 < 10" by simp
      ultimately show ?thesis by blast
    qed
  qed
qed

lemma digits10_nonempty: "digits10 n \<noteq> []"
  by (subst digits10.simps) simp

lemma digits_value_snoc:
  "digits_value R (Z @ [c]) = digits_value R Z * R + (case digit_value c of None \<Rightarrow> 0 | Some d \<Rightarrow> d)"
  by (simp add: digits_value_def)

lemma digits_value_digits10: "digits_value 10 (digits10 n) = n"
proof (induction n rule: digits10.induct)
  case (1 n)
  show ?case
  proof (cases "n < 10")
    case True
    then show ?thesis
      by (simp add: digits10.simps[of n] digits_value_def digit_value_digit_char)
  next
    case False
    then have "digits_value 10 (digits10 n) =
        digits_value 10 (digits10 (n div 10)) * 10 + n mod 10"
      by (simp add: digits10.simps[of n] digits_value_snoc digit_value_digit_char)
    with "1.IH" False show ?thesis by simp
  qed
qed

lemma digits10_radix: "c \<in> set (digits10 n) \<Longrightarrow> radix_digit 10 c"
  using digits10_chars[of c n] by (auto simp: radix_digit_def digit_value_digit_char)

lemma radix_digit_10_facts:
  "\<not> radix_digit 10 (CHR ''x'')" "\<not> radix_digit 10 (CHR ''X'')" "\<not> radix_digit 10 (CHR ''-'')"
  "\<not> radix_digit 10 (CHR ''+'')"
  by (simp_all add: radix_digit_def digit_value_def)

lemma white_space_not_digit: "white_space c \<Longrightarrow> \<not> radix_digit 10 c"
proof -
  assume "white_space c"
  then have "c = CHR 0x09 \<or> c = CHR 0x0A \<or> c = CHR 0x0B \<or> c = CHR 0x0C \<or> c = CHR 0x0D \<or> c = CHR 0x20"
    by (simp add: white_space_def)
  then show ?thesis
    by (elim disjE) (simp_all add: radix_digit_def digit_value_def)
qed

lemma parseInt_digits10: "parseInt (digits10 n) = Some (int n)"
proof -
  let ?ds = "digits10 n"
  have ne: "?ds \<noteq> []" by (rule digits10_nonempty)
  then have h: "hd ?ds \<in> set ?ds" by simp
  then have hr: "radix_digit 10 (hd ?ds)" by (rule digits10_radix)
  have ws: "dropWhile white_space ?ds = ?ds"
    using ne hr white_space_not_digit[of "hd ?ds"] by (cases ?ds) auto
  have sg: "hd ?ds \<noteq> CHR ''-''" "hd ?ds \<noteq> CHR ''+''"
    using hr radix_digit_10_facts by auto
  have nx: "\<not> (take 2 ?ds = ''0x'' \<or> take 2 ?ds = ''0X'')"
  proof
    assume "take 2 ?ds = ''0x'' \<or> take 2 ?ds = ''0X''"
    then have "CHR ''x'' \<in> set (take 2 ?ds) \<or> CHR ''X'' \<in> set (take 2 ?ds)" by auto
    then have "CHR ''x'' \<in> set ?ds \<or> CHR ''X'' \<in> set ?ds" by (auto dest: in_set_takeD)
    with digits10_radix radix_digit_10_facts show False by blast
  qed
  have tw: "takeWhile (radix_digit 10) ?ds = ?ds"
    by (simp add: takeWhile_eq_all_conv digits10_radix)
  show ?thesis
    using ne sg nx by (simp add: parseInt_def Let_def ws tw digits_value_digits10)
qed

lemma parseInt_toString: "parseInt (toString i) = Some i"
proof (cases "i < 0")
  case False
  then show ?thesis by (simp add: toString_def parseInt_digits10)
next
  case True
  let ?ds = "digits10 (nat (- i))"
  have ne: "?ds \<noteq> []" by (rule digits10_nonempty)
  have nx: "\<not> (take 2 ?ds = ''0x'' \<or> take 2 ?ds = ''0X'')"
  proof
    assume "take 2 ?ds = ''0x'' \<or> take 2 ?ds = ''0X''"
    then have "CHR ''x'' \<in> set (take 2 ?ds) \<or> CHR ''X'' \<in> set (take 2 ?ds)" by auto
    then have "CHR ''x'' \<in> set ?ds \<or> CHR ''X'' \<in> set ?ds" by (auto dest: in_set_takeD)
    with digits10_radix radix_digit_10_facts show False by blast
  qed
  have tw: "takeWhile (radix_digit 10) ?ds = ?ds"
    by (simp add: takeWhile_eq_all_conv digits10_radix)
  have "\<not> white_space (CHR ''-'')" by (simp add: white_space_def)
  then show ?thesis
    using True ne nx by (simp add: toString_def parseInt_def Let_def tw digits_value_digits10)
qed

lemma parseInt_samples:
  "parseInt ''0'' = Some 0" "parseInt ''1'' = Some 1" "parseInt ''2'' = Some 2"
  "parseInt ''3'' = Some 3" "parseInt ''4'' = Some 4" "parseInt ''5'' = Some 5"
  "parseInt ''6'' = Some 6" "parseInt ''2.5'' = Some 2" "parseInt ''0.5'' = Some 0"
  "parseInt ''1e+21'' = Some 1"
  by (simp_all add: parseInt_def Let_def white_space_def radix_digit_def digit_value_def
      digits_value_def)

lemma rating_toString: "rating (Some (toString n)) = (if n = 0 then 3 else n)"
  by (simp add: rating_def parseInt_toString)

lemma rating_read:
  "parseInt s = Some n \<Longrightarrow> n \<noteq> 0 \<Longrightarrow> rating (Some s) = n"
  "parseInt s = Some 0 \<Longrightarrow> rating (Some s) = 3"
  by (simp_all add: rating_def)

lemma sample_answers_simps:
  "rating (question_1_pipeline_health (sample_answers p c e ec t)) = (if p = 0 then 3 else p)"
  "rating (question_2_sales_conversion (sample_answers p c e ec t)) = (if c = 0 then 3 else c)"
  "rating (question_3_customer_success (sample_answers p c e ec t)) = (if e = 0 then 3 else e)"
  "rating (question_4_economics_and_efficiency (sample_answers p c e ec t)) = (if ec = 0 then 3 else ec)"
  "question_5_top_challenge (sample_answers p c e ec t) = t"
  by (simp_all add: sample_answers_def rating_toString)

subsection \<open>Lookups and the shape of the result\<close>

lemma toString_keys: "1 \<le> n \<Longrightarrow> n \<le> 5 \<Longrightarrow> toString n \<in> set rating_keys"
proof -
  assume "1 \<le> n" "n \<le> 5"
  then have "n = 1 \<or> n = 2 \<or> n = 3 \<or> n = 4 \<or> n = 5" by arith
  then show ?thesis
    by (auto simp: toString_def digits10.simps digit_char_def rating_keys_def)
qed

lemma valid_rating_key: "valid_rating x \<Longrightarrow> toString (rating x) \<in> set rating_keys"
  by (cases x) (auto simp: valid_rating_def rating_def intro: toString_keys split: option.splits)

lemma complete_bundles_lookup:
  assumes "complete_bundles qs" "k \<in> set rating_keys"
  shows "\<exists>pm cm em ec. q1_maps_to_metrics qs k = Some pm \<and> q2_maps_to_metrics qs k = Some cm \<and>
           q3_maps_to_metrics qs k = Some em \<and> q4_maps_to_metrics qs k = Some ec"
  using assms by (auto simp: complete_bundles_def list_all_iff)

lemma calculateScores_Inr:
  assumes "q1_maps_to_metrics qs (toString (rating (question_1_pipeline_health ans))) = Some pm"
    and "q2_maps_to_metrics qs (toString (rating (question_2_sales_conversion ans))) = Some cm"
    and "q3_maps_to_metrics qs (toString (rating (question_3_customer_success ans))) = Some em"
    and "q4_maps_to_metrics qs (toString (rating (question_4_economics_and_efficiency ans))) = Some ec"
  shows "calculateScores qs ans =
     Inr \<lparr>overall_ssi =
            Math_max (Fin 0) (Math_min (Fin 1)
              (overallSSI (pipelineScore pm) (conversionScore cm) (expansionScore em)
                 (economicsScore ec) (adjusted_weights (top_challenge (question_5_top_challenge ans))))),
          loop_scores =
            \<lparr>Pipeline = Math_max (Fin 0) (Math_min (Fin 1) (Fin (pipelineScore pm))),
             Conversion = Math_max (Fin 0) (Math_min (Fin 1) (Fin (conversionScore cm))),
             Expansion = Math_max (Fin 0) (Math_min (Fin 1) (Fin (expansionScore em)))\<rparr>,
          priority_recommendations = priorityRecommendations (allMetrics pm cm em ec),
          detected_patterns =
            detectPatterns ans (pipelineScore pm) (conversionScore cm) (expansionScore em)\<rparr>"
  using assms by (simp add: calculateScores_def Let_def)

lemma calculateScores_returns:
  assumes "complete_bundles qs" "valid_ratings ans"
  shows "\<exists>pm cm em ec.
     q1_maps_to_metrics qs (toString (rating (question_1_pipeline_health ans))) = Some pm \<and>
     q2_maps_to_metrics qs (toString (rating (question_2_sales_conversion ans))) = Some cm \<and>
     q3_maps_to_metrics qs (toString (rating (question_3_customer_success ans))) = Some em \<and>
     q4_maps_to_metrics qs (toString (rating (question_4_economics_and_efficiency ans))) = Some ec"
proof -
  from assms(2) have k:
    "toString (rating (question_1_pipeline_health ans)) \<in> set rating_keys"
    "toString (rating (question_2_sales_conversion ans)) \<in> set rating_keys"
    "toString (rating (question_3_customer_success ans)) \<in> set rating_keys"
    "toString (rating (question_4_economics_and_efficiency ans)) \<in> set rating_keys"
    by (simp_all add: valid_ratings_def valid_rating_key)
  from complete_bundles_lookup[OF assms(1) k(1)] complete_bundles_lookup[OF assms(1) k(2)]
    complete_bundles_lookup[OF assms(1) k(3)] complete_bundles_lookup[OF assms(1) k(4)]
  show ?thesis by blast
qed

lemma clamp_unit: "in_unit_interval (Math_max (Fin 0) (Math_min (Fin 1) (Fin x)))"
  by simp

lemma clamp_unit_iff: "in_unit_interval (Math_max (Fin 0) (Math_min (Fin 1) v)) = (v \<noteq> NaN)"
  by (cases v) simp_all

lemma weights_pipeline:
  "adjusted_weights ''pipeline'' =
     [(''pipeline'', Fin (0.345 / 1.045)), (''conversion'', Fin (0.30 / 1.045)),
      (''expansion'', Fin (0.25 / 1.045)), (''economics'', Fin (0.15 / 1.045))]"
  by (simp add: adjusted_weights_def challengeWeightMap_def base_weights_def get_number_def Let_def)

lemma weights_conversion:
  "adjusted_weights ''conversion'' =
     [(''pipeline'', Fin (0.30 / 1.045)), (''conversion'', Fin (0.345 / 1.045)),
      (''expansion'', Fin (0.25 / 1.045)), (''economics'', Fin (0.15 / 1.045))]"
  by (simp add: adjusted_weights_def challengeWeightMap_def base_weights_def get_number_def Let_def)

lemma weights_retention:
  "adjusted_weights ''retention'' =
     [(''pipeline'', Fin (0.30 / 1.0375)), (''conversion'', Fin (0.30 / 1.0375)),
      (''expansion'', Fin (0.2875 / 1.0375)), (''economics'', Fin (0.15 / 1.0375))]"
  by (simp add: adjusted_weights_def challengeWeightMap_def base_weights_def get_number_def Let_def)

lemma challengeWeightMap_cases:
  "(t = ''pipeline'' \<or> t = ''conversion'' \<or> t = ''retention'') \<or>
   challengeWeightMap t = Builtin t \<and> t \<in> set object_prototype_names \<or> challengeWeightMap t = Undefined"
  by (simp add: challengeWeightMap_def)

lemma weights_unrecognised:
  "challengeWeightMap t = Undefined \<Longrightarrow> adjusted_weights t = base_weights"
  by (simp add: adjusted_weights_def)

lemma weights_builtin:
  assumes "challengeWeightMap t = Builtin k"
  shows "adjusted_weights t =
     [(''pipeline'', NaN), (''conversion'', NaN), (''expansion'', NaN), (''economics'', NaN),
      (property_key (Builtin k), NaN)]"
  using assms
  by (simp add: adjusted_weights_def base_weights_def get_number_def Let_def)

lemma weights_builtin_get:
  assumes "challengeWeightMap t = Builtin k"
  shows "get_number (adjusted_weights t) ''pipeline'' = NaN"
    "get_number (adjusted_weights t) ''conversion'' = NaN"
    "get_number (adjusted_weights t) ''expansion'' = NaN"
    "get_number (adjusted_weights t) ''economics'' = NaN"
  by (simp_all add: weights_builtin[OF assms] get_number_def)

lemma overallSSI_builtin:
  assumes "challengeWeightMap t = Builtin k"
  shows "overallSSI p c e ec (adjusted_weights t) = NaN"
  by (simp add: overallSSI_def weights_builtin_get[OF assms])

lemma overallSSI_base:
  "overallSSI p c e ec base_weights = Fin (p * 0.30 + c * 0.30 + e * 0.25 + ec * 0.15)"
  by (simp add: overallSSI_def base_weights_def get_number_def)

lemma overallSSI_pipeline:
  "overallSSI p c e ec (adjusted_weights ''pipeline'') =
     Fin (p * (0.345 / 1.045) + c * (0.30 / 1.045) + e * (0.25 / 1.045) + ec * (0.15 / 1.045))"
  by (simp add: overallSSI_def weights_pipeline get_number_def)

lemma overallSSI_finite:
  assumes "t \<notin> set object_prototype_names"
  shows "\<exists>x. overallSSI p c e ec (adjusted_weights t) = Fin x"
proof -
  consider "t = ''pipeline''" | "t = ''conversion''" | "t = ''retention''"
    | "challengeWeightMap t = Undefined"
    using challengeWeightMap_cases[of t] assms by blast
  then show ?thesis
  proof cases
    case 1 then show ?thesis by (simp add: overallSSI_def weights_pipeline get_number_def)
  next
    case 2 then show ?thesis by (simp add: overallSSI_def weights_conversion get_number_def)
  next
    case 3 then show ?thesis by (simp add: overallSSI_def weights_retention get_number_def)
  next
    case 4 then show ?thesis by (simp add: weights_unrecognised overallSSI_base)
  qed
qed

lemma weights_sum_one:
  assumes "t \<notin> set object_prototype_names"
  shows "foldl (+) (Fin 0) (map snd (adjusted_weights t)) = Fin 1 \<and> length (adjusted_weights t) = 4"
proof -
  consider "t = ''pipeline''" | "t = ''conversion''" | "t = ''retention''"
    | "challengeWeightMap t = Undefined"
    using challengeWeightMap_cases[of t] assms by blast
  then show ?thesis
  proof cases
    case 1 then show ?thesis by (simp add: weights_pipeline)
  next
    case 2 then show ?thesis by (simp add: weights_conversion)
  next
    case 3 then show ?thesis by (simp add: weights_retention)
  next
    case 4 then show ?thesis by (simp add: weights_unrecognised base_weights_def)
  qed
qed

lemma calculateScores_throws:
  assumes "q1_maps_to_metrics qs (toString (rating (question_1_pipeline_health ans))) = None \<or>
           q2_maps_to_metrics qs (toString (rating (question_2_sales_conversion ans))) = None \<or>
           q3_maps_to_metrics qs (toString (rating (question_3_customer_success ans))) = None \<or>
           q4_maps_to_metrics qs (toString (rating (question_4_economics_and_efficiency ans))) = None"
  shows "calculateScores qs ans = Inl TypeError"
  using assms by (auto simp: calculateScores_def Let_def split: option.splits)

lemma calculateScores_rating_cong:
  assumes "rating (question_1_pipeline_health a) = rating (question_1_pipeline_health b)"
    and "rating (question_2_sales_conversion a) = rating (question_2_sales_conversion b)"
    and "rating (question_3_customer_success a) = rating (question_3_customer_success b)"
    and "rating (question_4_economics_and_efficiency a) = rating (question_4_economics_and_efficiency b)"
    and "top_challenge (question_5_top_challenge a) = top_challenge (question_5_top_challenge b)"
  shows "calculateScores qs a = calculateScores qs b"
proof -
  have "detectPatterns a p c e = detectPatterns b p c e" for p c e
    using assms by (simp add: detectPatterns_def)
  with assms show ?thesis
    by (simp add: calculateScores_def Let_def split: option.splits)
qed

subsection \<open>The sample configuration\<close>

lemma sample_complete: "complete_bundles sample_questions"
  by (simp add: complete_bundles_def rating_keys_def sample_questions_def)

lemma sample_answers_valid:
  "valid_ratings (sample_answers p c e ec t) = (1 \<le> p \<and> p \<le> 5 \<and> 1 \<le> c \<and> c \<le> 5 \<and> 1 \<le> e \<and> e \<le> 5 \<and> 1 \<le> ec \<and> ec \<le> 5)"
  by (simp add: valid_ratings_def valid_rating_def sample_answers_def parseInt_toString)

lemma sample_scores:
  assumes "f \<le> 1"
  shows "pipelineScore (sample_pipeline f) = f"
    "conversionScore (sample_conversion f) = f"
    "expansionScore (sample_expansion f) = f"
    "economicsScore (sample_economics f) = f"
  using assms
  by (simp_all add: pipelineScore_def sample_pipeline_def conversionScore_def sample_conversion_def
      expansionScore_def sample_expansion_def economicsScore_def sample_economics_def max_def
      field_simps)

lemma sample_scores_top:
  "pipelineScore (sample_pipeline (5 / 4)) = 99 / 80"
  "conversionScore (sample_conversion (5 / 4)) = 6 / 5"
  "expansionScore (sample_expansion (5 / 4)) = 19 / 16"
  "economicsScore (sample_economics (5 / 4)) = 91 / 80"
  by (simp_all add: pipelineScore_def sample_pipeline_def conversionScore_def sample_conversion_def
      expansionScore_def sample_expansion_def economicsScore_def sample_economics_def)

lemma sample_fives:
  "map_sum id overall_ssi (calculateScores sample_questions (sample_answers 5 5 5 5 t)) =
     Inr (Math_max (Fin 0) (Math_min (Fin 1)
       (overallSSI (99 / 80) (6 / 5) (19 / 16) (91 / 80) (adjusted_weights (top_challenge t)))))"
  apply (subst calculateScores_Inr[where pm = "sample_pipeline 1.25" and cm = "sample_conversion 1.25"
        and em = "sample_expansion 1.25" and ec = "sample_economics 1.25"])
      apply (simp_all add: sample_answers_simps toString_def digits10.simps digit_char_def
      sample_questions_def sample_scores_top)
  done

lemma sample_threes:
  "calculateScores sample_questions (sample_answers 3 3 3 3 t) =
     Inr \<lparr>overall_ssi =
            Math_max (Fin 0) (Math_min (Fin 1)
              (overallSSI 0.6 0.6 0.6 0.6 (adjusted_weights (top_challenge t)))),
          loop_scores =
            \<lparr>Pipeline = Fin 0.6, Conversion = Fin 0.6, Expansion = Fin 0.6\<rparr>,
          priority_recommendations =
            priorityRecommendations (allMetrics (sample_pipeline 0.6) (sample_conversion 0.6)
              (sample_expansion 0.6) (sample_economics 0.6)),
          detected_patterns = []\<rparr>"
  apply (subst calculateScores_Inr[where pm = "sample_pipeline 0.6" and cm = "sample_conversion 0.6"
        and em = "sample_expansion 0.6" and ec = "sample_economics 0.6"])
      apply (simp_all add: sample_answers_simps toString_def digits10.simps digit_char_def
      sample_questions_def sample_scores detectPatterns_def)
  done

lemma sample_ones_lookup:
  "q1_maps_to_metrics sample_questions ''1'' = Some ((sample_pipeline 0.2)\<lparr>lead_response_time := 48\<rparr>)"
  "q2_maps_to_metrics sample_questions ''1'' = Some (sample_conversion 0.2)"
  "q3_maps_to_metrics sample_questions ''1'' = Some (sample_expansion 0.2)"
  "q4_maps_to_metrics sample_questions ''1'' = Some (sample_economics 0.2)"
  by (simp_all add: sample_questions_def)

subsection \<open>Sorting and rounding\<close>

lemma insert_by_insort:
  "insert_by (\<lambda>a b. f a - f b) x ys = insort_key f x ys" for f :: "'a \<Rightarrow> real"
  by (induction ys) simp_all

lemma array_sort_sort_key:
  "array_sort (\<lambda>a b. f a - f b) xs = sort_key f xs" for f :: "'a \<Rightarrow> real"
proof -
  have "insert_by (\<lambda>a b. f a - f b) = insort_key f"
    by (intro ext) (rule insert_by_insort)
  then show ?thesis by (simp add: array_sort_def sort_key_def)
qed

lemma Math_round_mono: "x \<le> y \<Longrightarrow> Math_round x \<le> Math_round y"
  by (simp add: Math_round_def floor_mono)

lemma Math_round_percent: "0 \<le> x \<Longrightarrow> x \<le> 1 \<Longrightarrow> 0 \<le> Math_round (x * 100) \<and> Math_round (x * 100) \<le> 100"
  unfolding Math_round_def by (simp add: floor_le_iff le_floor_iff)

lemma sorted_map_mono:
  assumes "sorted (map f xs)" and "\<And>a b. a \<le> b \<Longrightarrow> g a \<le> g b"
  shows "sorted (map (\<lambda>x. g (f x)) xs)"
  using assms by (induction xs) auto

lemma length_allMetrics: "length (allMetrics pm cm em ec) = 9"
  by (simp add: allMetrics_def)

lemma priorityRecommendations_sorted:
  "priorityRecommendations ms = map recommend (take 5 (sort_key m_score ms))"
  by (simp add: priorityRecommendations_def array_sort_sort_key)

subsection \<open>The clamp, for a top challenge that is not a name of Object.prototype\<close>

lemma loop_scores_clamped:
  assumes "complete_bundles qs" and "valid_ratings ans"
  shows "\<exists>r. calculateScores qs ans = Inr r \<and>
     in_unit_interval (Pipeline (loop_scores r)) \<and>
     in_unit_interval (Conversion (loop_scores r)) \<and>
     in_unit_interval (Expansion (loop_scores r))"
proof -
  from calculateScores_returns[OF assms] obtain pm cm em ec where
    "q1_maps_to_metrics qs (toString (rating (question_1_pipeline_health ans))) = Some pm"
    "q2_maps_to_metrics qs (toString (rating (question_2_sales_conversion ans))) = Some cm"
    "q3_maps_to_metrics qs (toString (rating (question_3_customer_success ans))) = Some em"
    "q4_maps_to_metrics qs (toString (rating (question_4_economics_and_efficiency ans))) = Some ec"
    by blast
  from calculateScores_Inr[OF this] show ?thesis by simp
qed

lemma overall_ssi_clamped:
  assumes "complete_bundles qs" and "valid_ratings ans"
    and "top_challenge (question_5_top_challenge ans) \<notin> set object_prototype_names"
  shows "\<exists>r. calculateScores qs ans = Inr r \<and> in_unit_interval (overall_ssi r)"
proof -
  from calculateScores_returns[OF assms(1,2)] obtain pm cm em ec where
    "q1_maps_to_metrics qs (toString (rating (question_1_pipeline_health ans))) = Some pm"
    "q2_maps_to_metrics qs (toString (rating (question_2_sales_conversion ans))) = Some cm"
    "q3_maps_to_metrics qs (toString (rating (question_3_customer_success ans))) = Some em"
    "q4_maps_to_metrics qs (toString (rating (question_4_economics_and_efficiency ans))) = Some ec"
    by blast
  note r = calculateScores_Inr[OF this]
  from overallSSI_finite[OF assms(3)] obtain x where
    "overallSSI (pipelineScore pm) (conversionScore cm) (expansionScore em) (economicsScore ec)
       (adjusted_weights (top_challenge (question_5_top_challenge ans))) = Fin x"
    by blast
  with r show ?thesis by simp
qed

lemma overall_ssi_inherited_key:
  assumes "complete_bundles qs" and "valid_ratings ans"
    and "top_challenge (question_5_top_challenge ans) \<in> set object_prototype_names"
  shows "\<exists>r. calculateScores qs ans = Inr r \<and> overall_ssi r = NaN"
proof -
  from calculateScores_returns[OF assms(1,2)] obtain pm cm em ec where
    "q1_maps_to_metrics qs (toString (rating (question_1_pipeline_health ans))) = Some pm"
    "q2_maps_to_metrics qs (toString (rating (question_2_sales_conversion ans))) = Some cm"
    "q3_maps_to_metrics qs (toString (rating (question_3_customer_success ans))) = Some em"
    "q4_maps_to_metrics qs (toString (rating (question_4_economics_and_efficiency ans))) = Some ec"
    by blast
  note r = calculateScores_Inr[OF this]
  from assms(3) have "challengeWeightMap (top_challenge (question_5_top_challenge ans)) =
      Builtin (top_challenge (question_5_top_challenge ans))"
    by (auto simp: challengeWeightMap_def object_prototype_names_def)
  from overallSSI_builtin[OF this] r show ?thesis by simp
qed

section \<open>The claims\<close>

text \<open>
  Claim C1. For ratings in 1 to 5 and every top challenge string, the overall score and
  the three loop scores of the result lie in [0,1], each being clamped before it is
  returned. The loop scores do (\<open>loop_scores_clamped\<close>), and so does the overall score
  for every top challenge that is not a property name of \<^verbatim>\<open>Object.prototype\<close>
  (\<open>overall_ssi_clamped\<close>). For the top challenge \<^verbatim>\<open>constructor\<close> the lookup
  \<^verbatim>\<open>challengeWeightMap[topChallenge]\<close> finds the inherited function, the weights become
  \<open>NaN\<close>, and the clamp returns \<open>NaN\<close>: the code run at ratings 3, 3, 3, 3.
\<close>

theorem overall_ssi_nan_for_inherited_key:
  "map_sum id overall_ssi
     (calculateScores sample_questions (sample_answers 3 3 3 3 (Some ''constructor''))) = Inr NaN"
  by (simp add: sample_threes top_challenge_def
      overallSSI_builtin[of "''constructor''" "''constructor''"] challengeWeightMap_def object_prototype_names_def)

text \<open>
  Claim C2. For every top challenge the four weights sum to 1 after the adjustment. They
  do for every top challenge that is not a property name of \<^verbatim>\<open>Object.prototype\<close>
  (\<open>weights_sum_one\<close>). For the top challenge \<^verbatim>\<open>constructor\<close> the code multiplies an
  undefined weight, adds it to the object as a fifth property, and the renormalisation
  makes every weight \<open>NaN\<close>.
\<close>

theorem weights_nan_for_inherited_key:
  "adjusted_weights ''constructor'' =
     [(''pipeline'', NaN), (''conversion'', NaN), (''expansion'', NaN), (''economics'', NaN),
      (''function Object() { [native code] }'', NaN)]"
  by (simp add: weights_builtin[of "''constructor''" "''constructor''"] challengeWeightMap_def object_prototype_names_def)

text \<open>
  Claim C3. For ratings in 1 to 5 (and a configuration with a bundle for each of them) the
  result has exactly 5 priority recommendations: the first five of the nine metrics
  sorted ascending by raw score, metrics of equal score in their original order. The
  sorted list \<open>ms\<close> is a permutation of the nine, ascending, and stable; the rounded scores
  of the five entries are ascending as well.
\<close>

theorem priority_recommendations_five_lowest:
  assumes "complete_bundles qs" and "valid_ratings ans"
  shows "\<exists>r pm cm em ec ms.
     calculateScores qs ans = Inr r \<and>
     q1_maps_to_metrics qs (toString (rating (question_1_pipeline_health ans))) = Some pm \<and>
     q2_maps_to_metrics qs (toString (rating (question_2_sales_conversion ans))) = Some cm \<and>
     q3_maps_to_metrics qs (toString (rating (question_3_customer_success ans))) = Some em \<and>
     q4_maps_to_metrics qs (toString (rating (question_4_economics_and_efficiency ans))) = Some ec \<and>
     length (allMetrics pm cm em ec) = 9 \<and>
     mset ms = mset (allMetrics pm cm em ec) \<and>
     sorted (map m_score ms) \<and>
     (\<forall>k. filter (\<lambda>m. m_score m = k) ms = filter (\<lambda>m. m_score m = k) (allMetrics pm cm em ec)) \<and>
     priority_recommendations r = map recommend (take 5 ms) \<and>
     length (priority_recommendations r) = 5 \<and>
     sorted (map score (priority_recommendations r))"
proof -
  from calculateScores_returns[OF assms] obtain pm cm em ec where l:
    "q1_maps_to_metrics qs (toString (rating (question_1_pipeline_health ans))) = Some pm"
    "q2_maps_to_metrics qs (toString (rating (question_2_sales_conversion ans))) = Some cm"
    "q3_maps_to_metrics qs (toString (rating (question_3_customer_success ans))) = Some em"
    "q4_maps_to_metrics qs (toString (rating (question_4_economics_and_efficiency ans))) = Some ec"
    by blast
  define ms where "ms = sort_key m_score (allMetrics pm cm em ec)"
  obtain r where r: "calculateScores qs ans = Inr r"
    and pr: "priority_recommendations r = priorityRecommendations (allMetrics pm cm em ec)"
    using calculateScores_Inr[OF l] by simp
  have p: "priority_recommendations r = map recommend (take 5 ms)"
    by (simp add: pr priorityRecommendations_sorted ms_def)
  have m: "mset ms = mset (allMetrics pm cm em ec)" by (simp add: ms_def)
  have s: "sorted (map m_score ms)" by (simp add: ms_def)
  have st: "\<forall>k. filter (\<lambda>m. m_score m = k) ms = filter (\<lambda>m. m_score m = k) (allMetrics pm cm em ec)"
    by (simp add: ms_def sort_key_stable)
  have len: "length (priority_recommendations r) = 5"
    by (simp add: p ms_def length_allMetrics)
  have "sorted (map m_score (take 5 ms))"
    using s by (simp add: take_map[symmetric] sorted_wrt_take)
  then have "sorted (map (\<lambda>m. Math_round (m_score m * 100)) (take 5 ms))"
    by (rule sorted_map_mono) (simp add: Math_round_mono)
  then have so: "sorted (map score (priority_recommendations r))"
    by (simp add: p recommend_def comp_def)
  from r l m s st p len so length_allMetrics[of pm cm em ec] show ?thesis by blast
qed

theorem priority_recommendations_five_lowest_witness:
  "complete_bundles sample_questions \<and>
   valid_ratings (sample_answers 4 2 3 1 (Some ''retention'')) \<and>
   (\<exists>r. calculateScores sample_questions (sample_answers 4 2 3 1 (Some ''retention'')) = Inr r \<and>
        length (priority_recommendations r) = 5 \<and>
        sorted (map score (priority_recommendations r)))"
proof -
  have v: "valid_ratings (sample_answers 4 2 3 1 (Some ''retention''))"
    by (simp add: sample_answers_valid)
  from priority_recommendations_five_lowest[OF sample_complete v]
  have "\<exists>r. calculateScores sample_questions (sample_answers 4 2 3 1 (Some ''retention'')) = Inr r \<and>
        length (priority_recommendations r) = 5 \<and>
        sorted (map score (priority_recommendations r))"
    by blast
  with sample_complete v show ?thesis by simp
qed

text \<open>
  Claim C4 (as amended). For ratings in 1 to 5, every priority recommendation carries the
  integer \<^verbatim>\<open>Math.round(score * 100)\<close> of one of the nine metrics. The code does not clamp
  it: it lies in [0,100] when the raw score of that metric lies in [0,1].
\<close>

theorem recommendation_score_rounded:
  assumes "complete_bundles qs" and "valid_ratings ans"
  shows "\<exists>r pm cm em ec.
     calculateScores qs ans = Inr r \<and>
     q1_maps_to_metrics qs (toString (rating (question_1_pipeline_health ans))) = Some pm \<and>
     q2_maps_to_metrics qs (toString (rating (question_2_sales_conversion ans))) = Some cm \<and>
     q3_maps_to_metrics qs (toString (rating (question_3_customer_success ans))) = Some em \<and>
     q4_maps_to_metrics qs (toString (rating (question_4_economics_and_efficiency ans))) = Some ec \<and>
     (\<forall>e \<in> set (priority_recommendations r).
        \<exists>m \<in> set (allMetrics pm cm em ec).
          e = recommend m \<and> score e = Math_round (m_score m * 100) \<and>
          (0 \<le> m_score m \<and> m_score m \<le> 1 \<longrightarrow> 0 \<le> score e \<and> score e \<le> 100))"
proof -
  from calculateScores_returns[OF assms] obtain pm cm em ec where l:
    "q1_maps_to_metrics qs (toString (rating (question_1_pipeline_health ans))) = Some pm"
    "q2_maps_to_metrics qs (toString (rating (question_2_sales_conversion ans))) = Some cm"
    "q3_maps_to_metrics qs (toString (rating (question_3_customer_success ans))) = Some em"
    "q4_maps_to_metrics qs (toString (rating (question_4_economics_and_efficiency ans))) = Some ec"
    by blast
  obtain r where r: "calculateScores qs ans = Inr r"
    and pr: "priority_recommendations r = priorityRecommendations (allMetrics pm cm em ec)"
    using calculateScores_Inr[OF l] by simp
  have "\<exists>m \<in> set (allMetrics pm cm em ec).
          e = recommend m \<and> score e = Math_round (m_score m * 100) \<and>
          (0 \<le> m_score m \<and> m_score m \<le> 1 \<longrightarrow> 0 \<le> score e \<and> score e \<le> 100)"
    if "e \<in> set (priority_recommendations r)" for e
  proof -
    from that obtain m where m: "m \<in> set (take 5 (sort_key m_score (allMetrics pm cm em ec)))"
      and e: "e = recommend m"
      by (auto simp: pr priorityRecommendations_sorted)
    from m have "m \<in> set (sort_key m_score (allMetrics pm cm em ec))" by (rule in_set_takeD)
    then have "m \<in> set (allMetrics pm cm em ec)" by simp
    moreover have "score e = Math_round (m_score m * 100)" by (simp add: e recommend_def)
    ultimately show ?thesis using e Math_round_percent[of "m_score m"] by auto
  qed
  with r l show ?thesis by blast
qed

theorem recommendation_score_rounded_witness:
  "complete_bundles sample_questions \<and>
   valid_ratings (sample_answers 1 1 1 1 (Some ''pipeline'')) \<and>
   (\<exists>r pm cm em ec.
      calculateScores sample_questions (sample_answers 1 1 1 1 (Some ''pipeline'')) = Inr r \<and>
      (\<forall>e \<in> set (priority_recommendations r).
         \<exists>m \<in> set (allMetrics pm cm em ec). score e = Math_round (m_score m * 100)))"
proof -
  have v: "valid_ratings (sample_answers 1 1 1 1 (Some ''pipeline''))"
    by (simp add: sample_answers_valid)
  from recommendation_score_rounded[OF sample_complete v]
  have "\<exists>r pm cm em ec.
      calculateScores sample_questions (sample_answers 1 1 1 1 (Some ''pipeline'')) = Inr r \<and>
      (\<forall>e \<in> set (priority_recommendations r).
         \<exists>m \<in> set (allMetrics pm cm em ec). score e = Math_round (m_score m * 100))"
    by blast
  with sample_complete v show ?thesis by simp
qed

text \<open>
  The claim as stated fails: with a lead response time of 48 hours the raw score of that
  metric is \<open>1 - 48 / 24 = -1\<close>, and the first recommendation carries \<open>-100\<close>.
\<close>

theorem recommendation_score_out_of_range:
  "map_sum id (map score \<circ> priority_recommendations)
     (calculateScores sample_questions (sample_answers 1 1 1 1 (Some ''pipeline''))) =
   Inr [- 100, 20, 20, 20, 20]"
  apply (subst calculateScores_Inr[where pm = "(sample_pipeline 0.2)\<lparr>lead_response_time := 48\<rparr>"
        and cm = "sample_conversion 0.2" and em = "sample_expansion 0.2" and ec = "sample_economics 0.2"])
      apply (simp_all add: sample_answers_simps toString_def digits10.simps digit_char_def
      sample_ones_lookup)
  apply (simp add: priorityRecommendations_def array_sort_def allMetrics_def recommend_def
      sample_pipeline_def sample_conversion_def sample_expansion_def sample_economics_def Math_round_def)
  done

text \<open>
  Claim C5 (as amended). The code reads a rating with \<^verbatim>\<open>parseInt\<close>, which parses the
  integer at the start of the rating's string form (magnitudes below \<open>2^53\<close>, where the
  number read is exact and printed with all its digits). A rating read as an integer \<open>n\<close>
  other than 0 whose decimal string has no entry in the bundle of its category makes
  \<^verbatim>\<open>calculateScores\<close> throw, whatever the other fields are; an integer rating \<open>n\<close> is read
  as \<open>n\<close>. A rating \<open>z\<close> read as 0 is falsy: the default 3 replaces it. A rating \<open>u\<close> read
  as an integer \<open>m\<close> other than 0 is scored as the integer rating \<open>m\<close>.
\<close>

theorem missing_bundle_throws:
  assumes "n \<noteq> 0" and "\<bar>n\<bar> < 2 ^ 53"
    and "parseInt s = Some n"
    and "question_1_pipeline_health ans = Some s \<and> q1_maps_to_metrics qs (toString n) = None \<or>
         question_2_sales_conversion ans = Some s \<and> q2_maps_to_metrics qs (toString n) = None \<or>
         question_3_customer_success ans = Some s \<and> q3_maps_to_metrics qs (toString n) = None \<or>
         question_4_economics_and_efficiency ans = Some s \<and> q4_maps_to_metrics qs (toString n) = None"
    and "parseInt z = Some 0"
    and "parseInt u = Some m" and "m \<noteq> 0" and "\<bar>m\<bar> < 2 ^ 53"
  shows "calculateScores qs ans = Inl TypeError \<and>
         parseInt (toString n) = Some n \<and>
         calculateScores qs (ans\<lparr>question_1_pipeline_health := Some z\<rparr>) =
           calculateScores qs (ans\<lparr>question_1_pipeline_health := Some ''3''\<rparr>) \<and>
         calculateScores qs (ans\<lparr>question_2_sales_conversion := Some z\<rparr>) =
           calculateScores qs (ans\<lparr>question_2_sales_conversion := Some ''3''\<rparr>) \<and>
         calculateScores qs (ans\<lparr>question_3_customer_success := Some z\<rparr>) =
           calculateScores qs (ans\<lparr>question_3_customer_success := Some ''3''\<rparr>) \<and>
         calculateScores qs (ans\<lparr>question_4_economics_and_efficiency := Some z\<rparr>) =
           calculateScores qs (ans\<lparr>question_4_economics_and_efficiency := Some ''3''\<rparr>) \<and>
         calculateScores qs (ans\<lparr>question_1_pipeline_health := Some u\<rparr>) =
           calculateScores qs (ans\<lparr>question_1_pipeline_health := Some (toString m)\<rparr>) \<and>
         calculateScores qs (ans\<lparr>question_2_sales_conversion := Some u\<rparr>) =
           calculateScores qs (ans\<lparr>question_2_sales_conversion := Some (toString m)\<rparr>) \<and>
         calculateScores qs (ans\<lparr>question_3_customer_success := Some u\<rparr>) =
           calculateScores qs (ans\<lparr>question_3_customer_success := Some (toString m)\<rparr>) \<and>
         calculateScores qs (ans\<lparr>question_4_economics_and_efficiency := Some u\<rparr>) =
           calculateScores qs (ans\<lparr>question_4_economics_and_efficiency := Some (toString m)\<rparr>)"
proof -
  have r: "rating (Some s) = n" using assms(1,3) by (simp add: rating_read)
  have t: "calculateScores qs ans = Inl TypeError"
    by (rule calculateScores_throws) (use assms(4) r in auto)
  have z: "rating (Some z) = rating (Some ''3'')"
    using assms(5) by (simp add: rating_def parseInt_samples)
  have z1: "calculateScores qs (ans\<lparr>question_1_pipeline_health := Some z\<rparr>) =
           calculateScores qs (ans\<lparr>question_1_pipeline_health := Some ''3''\<rparr>)"
    by (rule calculateScores_rating_cong) (simp_all add: z)
  have z2: "calculateScores qs (ans\<lparr>question_2_sales_conversion := Some z\<rparr>) =
           calculateScores qs (ans\<lparr>question_2_sales_conversion := Some ''3''\<rparr>)"
    by (rule calculateScores_rating_cong) (simp_all add: z)
  have z3: "calculateScores qs (ans\<lparr>question_3_customer_success := Some z\<rparr>) =
           calculateScores qs (ans\<lparr>question_3_customer_success := Some ''3''\<rparr>)"
    by (rule calculateScores_rating_cong) (simp_all add: z)
  have z4: "calculateScores qs (ans\<lparr>question_4_economics_and_efficiency := Some z\<rparr>) =
           calculateScores qs (ans\<lparr>question_4_economics_and_efficiency := Some ''3''\<rparr>)"
    by (rule calculateScores_rating_cong) (simp_all add: z)
  have u: "rating (Some u) = rating (Some (toString m))"
    using assms(6,7) by (simp add: rating_read rating_toString)
  have u1: "calculateScores qs (ans\<lparr>question_1_pipeline_health := Some u\<rparr>) =
           calculateScores qs (ans\<lparr>question_1_pipeline_health := Some (toString m)\<rparr>)"
    by (rule calculateScores_rating_cong) (simp_all add: u)
  have u2: "calculateScores qs (ans\<lparr>question_2_sales_conversion := Some u\<rparr>) =
           calculateScores qs (ans\<lparr>question_2_sales_conversion := Some (toString m)\<rparr>)"
    by (rule calculateScores_rating_cong) (simp_all add: u)
  have u3: "calculateScores qs (ans\<lparr>question_3_customer_success := Some u\<rparr>) =
           calculateScores qs (ans\<lparr>question_3_customer_success := Some (toString m)\<rparr>)"
    by (rule calculateScores_rating_cong) (simp_all add: u)
  have u4: "calculateScores qs (ans\<lparr>question_4_economics_and_efficiency := Some u\<rparr>) =
           calculateScores qs (ans\<lparr>question_4_economics_and_efficiency := Some (toString m)\<rparr>)"
    by (rule calculateScores_rating_cong) (simp_all add: u)
  from t z1 z2 z3 z4 u1 u2 u3 u4 show ?thesis by (simp add: parseInt_toString)
qed

theorem missing_bundle_throws_witness:
  "(6::int) \<noteq> 0 \<and> \<bar>6::int\<bar> < 2 ^ 53 \<and> parseInt ''6'' = Some 6 \<and>
   question_1_pipeline_health (sample_answers 6 3 3 3 (Some ''pipeline'')) = Some ''6'' \<and>
   q1_maps_to_metrics sample_questions (toString 6) = None \<and>
   parseInt ''0'' = Some 0 \<and>
   parseInt ''2.5'' = Some 2 \<and> (2::int) \<noteq> 0 \<and> \<bar>2::int\<bar> < 2 ^ 53 \<and>
   calculateScores sample_questions (sample_answers 6 3 3 3 (Some ''pipeline'')) = Inl TypeError"
proof -
  have a: "question_1_pipeline_health (sample_answers 6 3 3 3 (Some ''pipeline'')) = Some ''6''"
    by (simp add: sample_answers_def toString_def digits10.simps digit_char_def)
  have b: "q1_maps_to_metrics sample_questions (toString 6) = None"
    by (simp add: sample_questions_def toString_def digits10.simps digit_char_def)
  have c: "parseInt ''6'' = Some 6" "parseInt ''0'' = Some 0" "parseInt ''2.5'' = Some 2"
    by (simp_all add: parseInt_samples)
  from missing_bundle_throws[of 6 "''6''" "sample_answers 6 3 3 3 (Some ''pipeline'')"
      sample_questions "''0''" "''2.5''" 2] a b c
  show ?thesis by simp
qed

text \<open>
  The claim as stated fails at three numeric ratings outside 1 to 5, none of which has an
  entry in the bundle. The rating 0 is scored as the rating 3. The rating 2.5 is read as
  2 and scored as the rating 2. The rating \<open>10^21\<close> is printed in exponent notation,
  read as 1 and scored as the rating 1.
\<close>

theorem zero_rating_defaulted:
  "q1_maps_to_metrics sample_questions ''0'' = None \<and>
   \<not> isl (calculateScores sample_questions (sample_answers 0 3 3 3 (Some ''pipeline''))) \<and>
   calculateScores sample_questions (sample_answers 0 3 3 3 (Some ''pipeline'')) =
     calculateScores sample_questions (sample_answers 3 3 3 3 (Some ''pipeline'')) \<and>
   q1_maps_to_metrics sample_questions ''2.5'' = None \<and>
   \<not> isl (calculateScores sample_questions
      ((sample_answers 3 3 3 3 (Some ''pipeline''))\<lparr>question_1_pipeline_health := Some ''2.5''\<rparr>)) \<and>
   calculateScores sample_questions
      ((sample_answers 3 3 3 3 (Some ''pipeline''))\<lparr>question_1_pipeline_health := Some ''2.5''\<rparr>) =
     calculateScores sample_questions (sample_answers 2 3 3 3 (Some ''pipeline'')) \<and>
   q1_maps_to_metrics sample_questions ''1e+21'' = None \<and>
   \<not> isl (calculateScores sample_questions
      ((sample_answers 3 3 3 3 (Some ''pipeline''))\<lparr>question_1_pipeline_health := Some ''1e+21''\<rparr>)) \<and>
   calculateScores sample_questions
      ((sample_answers 3 3 3 3 (Some ''pipeline''))\<lparr>question_1_pipeline_health := Some ''1e+21''\<rparr>) =
     calculateScores sample_questions (sample_answers 1 3 3 3 (Some ''pipeline''))"
proof -
  have k: "q1_maps_to_metrics sample_questions ''0'' = None"
    "q1_maps_to_metrics sample_questions ''2.5'' = None"
    "q1_maps_to_metrics sample_questions ''1e+21'' = None"
    by (simp_all add: sample_questions_def)
  have r: "\<not> isl (calculateScores sample_questions (sample_answers p 3 3 3 (Some ''pipeline'')))"
    if "1 \<le> p" "p \<le> 5" for p
  proof -
    have "valid_ratings (sample_answers p 3 3 3 (Some ''pipeline''))"
      using that by (simp add: sample_answers_valid)
    from loop_scores_clamped[OF sample_complete this] show ?thesis by auto
  qed
  have 0: "calculateScores sample_questions (sample_answers 0 3 3 3 (Some ''pipeline'')) =
     calculateScores sample_questions (sample_answers 3 3 3 3 (Some ''pipeline''))"
    by (rule calculateScores_rating_cong) (simp_all add: sample_answers_simps)
  have 2: "calculateScores sample_questions
      ((sample_answers 3 3 3 3 (Some ''pipeline''))\<lparr>question_1_pipeline_health := Some ''2.5''\<rparr>) =
     calculateScores sample_questions (sample_answers 2 3 3 3 (Some ''pipeline''))"
    by (rule calculateScores_rating_cong)
      (simp_all add: sample_answers_simps rating_read parseInt_samples)
  have 1: "calculateScores sample_questions
      ((sample_answers 3 3 3 3 (Some ''pipeline''))\<lparr>question_1_pipeline_health := Some ''1e+21''\<rparr>) =
     calculateScores sample_questions (sample_answers 1 3 3 3 (Some ''pipeline''))"
    by (rule calculateScores_rating_cong)
      (simp_all add: sample_answers_simps rating_read parseInt_samples)
  from k 0 1 2 r[of 3] r[of 2] r[of 1] show ?thesis by simp
qed

text \<open>
  Claim C6. For the ratings pipeline 4, conversion 2, expansion 3, economics 3 and the top
  challenge "conversion", the detected patterns contain \<^verbatim>\<open>pipeline_conversion_gap\<close> and
  do not contain \<^verbatim>\<open>leaky_bucket\<close>.
\<close>

theorem pipeline_conversion_gap_scenario:
  assumes "complete_bundles qs"
  shows "\<exists>r. calculateScores qs
           \<lparr>question_1_pipeline_health = Some ''4'', question_2_sales_conversion = Some ''2'',
            question_3_customer_success = Some ''3'',
            question_4_economics_and_efficiency = Some ''3'',
            question_5_top_challenge = Some ''conversion''\<rparr> = Inr r \<and>
         ''pipeline_conversion_gap'' \<in> set (map pattern (detected_patterns r)) \<and>
         ''leaky_bucket'' \<notin> set (map pattern (detected_patterns r))"
proof -
  let ?a = "\<lparr>question_1_pipeline_health = Some ''4'', question_2_sales_conversion = Some ''2'',
            question_3_customer_success = Some ''3'',
            question_4_economics_and_efficiency = Some ''3'',
            question_5_top_challenge = Some ''conversion''\<rparr>"
  have "valid_ratings ?a" by (simp add: valid_ratings_def valid_rating_def parseInt_samples)
  from calculateScores_returns[OF assms this] obtain pm cm em ec where
    "q1_maps_to_metrics qs (toString (rating (question_1_pipeline_health ?a))) = Some pm"
     "q2_maps_to_metrics qs (toString (rating (question_2_sales_conversion ?a))) = Some cm"
     "q3_maps_to_metrics qs (toString (rating (question_3_customer_success ?a))) = Some em"
     "q4_maps_to_metrics qs (toString (rating (question_4_economics_and_efficiency ?a))) = Some ec"
    by blast
  from calculateScores_Inr[OF this] show ?thesis
    by (simp add: detectPatterns_def rating_def parseInt_samples)
qed

theorem pipeline_conversion_gap_scenario_witness:
  "complete_bundles sample_questions \<and>
   (\<exists>r. calculateScores sample_questions
           \<lparr>question_1_pipeline_health = Some ''4'', question_2_sales_conversion = Some ''2'',
            question_3_customer_success = Some ''3'',
            question_4_economics_and_efficiency = Some ''3'',
            question_5_top_challenge = Some ''conversion''\<rparr> = Inr r \<and>
         ''pipeline_conversion_gap'' \<in> set (map pattern (detected_patterns r)) \<and>
         ''leaky_bucket'' \<notin> set (map pattern (detected_patterns r)))"
  using pipeline_conversion_gap_scenario[OF sample_complete] sample_complete by simp

text \<open>
  Claim C7. When all four ratings are 3, whatever the top challenge, no pattern is
  detected.
\<close>

theorem baseline_no_patterns:
  assumes "complete_bundles qs"
  shows "\<exists>r. calculateScores qs
           \<lparr>question_1_pipeline_health = Some ''3'', question_2_sales_conversion = Some ''3'',
            question_3_customer_success = Some ''3'',
            question_4_economics_and_efficiency = Some ''3'',
            question_5_top_challenge = t\<rparr> = Inr r \<and>
         detected_patterns r = []"
proof -
  let ?a = "\<lparr>question_1_pipeline_health = Some ''3'', question_2_sales_conversion = Some ''3'',
            question_3_customer_success = Some ''3'',
            question_4_economics_and_efficiency = Some ''3'',
            question_5_top_challenge = t\<rparr>"
  have "valid_ratings ?a" by (simp add: valid_ratings_def valid_rating_def parseInt_samples)
  from calculateScores_returns[OF assms this] obtain pm cm em ec where
    "q1_maps_to_metrics qs (toString (rating (question_1_pipeline_health ?a))) = Some pm"
     "q2_maps_to_metrics qs (toString (rating (question_2_sales_conversion ?a))) = Some cm"
     "q3_maps_to_metrics qs (toString (rating (question_3_customer_success ?a))) = Some em"
     "q4_maps_to_metrics qs (toString (rating (question_4_economics_and_efficiency ?a))) = Some ec"
    by blast
  from calculateScores_Inr[OF this] show ?thesis
    by (simp add: detectPatterns_def rating_def parseInt_samples)
qed

theorem baseline_no_patterns_witness:
  "complete_bundles sample_questions \<and>
   (\<exists>r. calculateScores sample_questions
           \<lparr>question_1_pipeline_health = Some ''3'', question_2_sales_conversion = Some ''3'',
            question_3_customer_success = Some ''3'',
            question_4_economics_and_efficiency = Some ''3'',
            question_5_top_challenge = Some ''retention''\<rparr> = Inr r \<and>
         detected_patterns r = [])"
  using baseline_no_patterns[OF sample_complete, of "Some ''retention''"] sample_complete by simp


text \<open>
  Claim C9 (as amended). When the top challenge is absent or the empty string,
  \<^verbatim>\<open>calculateScores\<close> substitutes "pipeline" before the weight adjustment: the result is
  that of the request with the top challenge "pipeline", and the weights are those of
  "pipeline", with the boosted pipeline weight \<open>0.345 / 1.045\<close> above the \<open>0.30\<close> that
  "other" leaves. The overall score can still be the one for "other": it is for all
  ratings 5 on the sample configuration, where the clamp applies to both.
\<close>

theorem missing_challenge_is_pipeline:
  assumes "question_5_top_challenge ans = None \<or> question_5_top_challenge ans = Some []"
  shows "calculateScores qs ans =
           calculateScores qs (ans\<lparr>question_5_top_challenge := Some ''pipeline''\<rparr>) \<and>
         adjusted_weights (top_challenge (question_5_top_challenge ans)) =
           adjusted_weights ''pipeline'' \<and>
         get_number (adjusted_weights (top_challenge (question_5_top_challenge ans))) ''pipeline'' =
           Fin (0.345 / 1.045) \<and>
         get_number (adjusted_weights ''other'') ''pipeline'' = Fin 0.30 \<and>
         (0.30 :: real) < 0.345 / 1.045 \<and>
         map_sum id overall_ssi (calculateScores sample_questions (sample_answers 5 5 5 5 None)) =
           map_sum id overall_ssi
             (calculateScores sample_questions (sample_answers 5 5 5 5 (Some ''other'')))"
proof -
  from assms have t: "top_challenge (question_5_top_challenge ans) = ''pipeline''"
    by (auto simp: top_challenge_def)
  have 1: "calculateScores qs ans =
      calculateScores qs (ans\<lparr>question_5_top_challenge := Some ''pipeline''\<rparr>)"
    by (rule calculateScores_rating_cong) (simp_all add: t, simp add: top_challenge_def)
  have o: "adjusted_weights ''other'' = base_weights"
    by (simp add: weights_unrecognised challengeWeightMap_def object_prototype_names_def)
  have 2: "get_number (adjusted_weights ''pipeline'') ''pipeline'' = Fin (0.345 / 1.045)"
    by (simp add: weights_pipeline get_number_def)
  have 3: "get_number (adjusted_weights ''other'') ''pipeline'' = Fin 0.30"
    by (simp add: o base_weights_def get_number_def)
  have 4: "map_sum id overall_ssi (calculateScores sample_questions (sample_answers 5 5 5 5 None)) =
           map_sum id overall_ssi
             (calculateScores sample_questions (sample_answers 5 5 5 5 (Some ''other'')))"
    by (simp add: sample_fives top_challenge_def overallSSI_pipeline o overallSSI_base)
  from 1 2 3 4 show ?thesis by (simp add: t)
qed

theorem missing_challenge_is_pipeline_witness:
  "question_5_top_challenge (sample_answers 5 5 5 5 None) = None \<and>
   calculateScores sample_questions (sample_answers 5 5 5 5 None) =
     calculateScores sample_questions
       ((sample_answers 5 5 5 5 None)\<lparr>question_5_top_challenge := Some ''pipeline''\<rparr>) \<and>
   get_number (adjusted_weights
       (top_challenge (question_5_top_challenge (sample_answers 5 5 5 5 None)))) ''pipeline'' =
     Fin (0.345 / 1.045)"
proof -
  have n: "question_5_top_challenge (sample_answers 5 5 5 5 None) = None"
    by (simp add: sample_answers_def)
  then have "question_5_top_challenge (sample_answers 5 5 5 5 None) = None \<or>
      question_5_top_challenge (sample_answers 5 5 5 5 None) = Some []"
    by simp
  from missing_challenge_is_pipeline[OF this, of sample_questions] n show ?thesis by blast
qed

text \<open>
  The claim as stated fails where the clamp applies to both overall scores: with all
  ratings 5 on the sample configuration every category score is above 1, and the overall
  score is 1 for an absent top challenge and for "other" alike.
\<close>

theorem missing_challenge_same_overall:
  "map_sum id overall_ssi (calculateScores sample_questions (sample_answers 5 5 5 5 None)) =
     Inr (Fin 1) \<and>
   map_sum id overall_ssi
     (calculateScores sample_questions (sample_answers 5 5 5 5 (Some ''other''))) = Inr (Fin 1)"
  by (simp add: sample_fives top_challenge_def overallSSI_pipeline weights_unrecognised
      challengeWeightMap_def object_prototype_names_def overallSSI_base)

text \<open>
  Claim C10. For ratings in 1 to 5 and a fixed configuration, two requests that differ only
  in the top challenge return the same loop scores, the same priority recommendations and
  the same detected patterns: the results differ at most in the overall score.
\<close>

theorem top_challenge_noninterference:
  assumes "complete_bundles qs" and "valid_ratings ans"
  shows "\<exists>r1 r2.
     calculateScores qs (ans\<lparr>question_5_top_challenge := t1\<rparr>) = Inr r1 \<and>
     calculateScores qs (ans\<lparr>question_5_top_challenge := t2\<rparr>) = Inr r2 \<and>
     loop_scores r1 = loop_scores r2 \<and>
     priority_recommendations r1 = priority_recommendations r2 \<and>
     detected_patterns r1 = detected_patterns r2 \<and>
     r2 = r1\<lparr>overall_ssi := overall_ssi r2\<rparr>"
proof -
  from calculateScores_returns[OF assms] obtain pm cm em ec where l:
    "q1_maps_to_metrics qs (toString (rating (question_1_pipeline_health ans))) = Some pm"
    "q2_maps_to_metrics qs (toString (rating (question_2_sales_conversion ans))) = Some cm"
    "q3_maps_to_metrics qs (toString (rating (question_3_customer_success ans))) = Some em"
    "q4_maps_to_metrics qs (toString (rating (question_4_economics_and_efficiency ans))) = Some ec"
    by blast
  have d: "detectPatterns (ans\<lparr>question_5_top_challenge := t\<rparr>) x y z = detectPatterns ans x y z" for t x y z
    by (simp add: detectPatterns_def)
  have "calculateScores qs (ans\<lparr>question_5_top_challenge := t\<rparr>) =
     Inr \<lparr>overall_ssi =
            Math_max (Fin 0) (Math_min (Fin 1)
              (overallSSI (pipelineScore pm) (conversionScore cm) (expansionScore em)
                 (economicsScore ec) (adjusted_weights (top_challenge t)))),
          loop_scores =
            \<lparr>Pipeline = Math_max (Fin 0) (Math_min (Fin 1) (Fin (pipelineScore pm))),
             Conversion = Math_max (Fin 0) (Math_min (Fin 1) (Fin (conversionScore cm))),
             Expansion = Math_max (Fin 0) (Math_min (Fin 1) (Fin (expansionScore em)))\<rparr>,
          priority_recommendations = priorityRecommendations (allMetrics pm cm em ec),
          detected_patterns =
            detectPatterns ans (pipelineScore pm) (conversionScore cm) (expansionScore em)\<rparr>" for t
    using calculateScores_Inr[of qs "ans\<lparr>question_5_top_challenge := t\<rparr>" pm cm em ec] l
    by (simp add: d)
  then show ?thesis by simp
qed

theorem top_challenge_noninterference_witness:
  "complete_bundles sample_questions \<and>
   valid_ratings (sample_answers 4 2 3 1 None) \<and>
   (\<exists>r1 r2.
      calculateScores sample_questions
        ((sample_answers 4 2 3 1 None)\<lparr>question_5_top_challenge := Some ''conversion''\<rparr>) = Inr r1 \<and>
      calculateScores sample_questions
        ((sample_answers 4 2 3 1 None)\<lparr>question_5_top_challenge := Some ''constructor''\<rparr>) = Inr r2 \<and>
      loop_scores r1 = loop_scores r2 \<and>
      priority_recommendations r1 = priority_recommendations r2 \<and>
      detected_patterns r1 = detected_patterns r2)"
proof -
  have v: "valid_ratings (sample_answers 4 2 3 1 None)"
    by (simp add: sample_answers_valid)
  from top_challenge_noninterference[OF sample_complete v,
      of "Some ''conversion''" "Some ''constructor''"]
  have "\<exists>r1 r2.
      calculateScores sample_questions
        ((sample_answers 4 2 3 1 None)\<lparr>question_5_top_challenge := Some ''conversion''\<rparr>) = Inr r1 \<and>
      calculateScores sample_questions
        ((sample_answers 4 2 3 1 None)\<lparr>question_5_top_challenge := Some ''constructor''\<rparr>) = Inr r2 \<and>
      loop_scores r1 = loop_scores r2 \<and>
      priority_recommendations r1 = priority_recommendations r2 \<and>
      detected_patterns r1 = detected_patterns r2"
    by blast
  with sample_complete v show ?thesis by simp
qed

end
